theory Spec2Isabelle
  imports Complex_Main "HOL-Library.AList" "HOL-Library.Sublist"
begin

section \<open>Values exchanged with the outside\<close>

text \<open>
  The handlers of \<^verbatim>\<open>app.py\<close> build Python dictionaries and lists and hand them to
  \<^verbatim>\<open>jsonify\<close> together with an HTTP status. A dictionary literal is an association list
  in the order the source writes its keys; Python's \<^verbatim>\<open>None\<close> is \<open>JNull\<close>; a Python float
  (the percentages and the elapsed seconds) is the real number it denotes.
\<close>

datatype json =
    JNull
  | JInt int
  | JFloat real
  | JStr string
  | JArr "json list"
  | JObj "(string \<times> json) list"

type_synonym response = "json \<times> int"

text \<open>\<^verbatim>\<open>s['status']\<close>: the value stored under a key of a dictionary.\<close>

fun subscript :: "json \<Rightarrow> string \<Rightarrow> json option" where
  "subscript (JObj kvs) k = map_of kvs k"
| "subscript _ k = None"

text \<open>An exception caught by \<^verbatim>\<open>except Exception as e\<close>, carrying \<^verbatim>\<open>str(e)\<close>.\<close>

datatype exception = Exception string

section \<open>Process state: the logger and the service table\<close>

datatype levelname = INFO | ERROR

type_synonym log_record = "levelname \<times> string"

text \<open>
  The module-level names a handler can reach: the dictionary \<^verbatim>\<open>SERVICES\<close> (name and URL, in
  insertion order) and the records the application logger has emitted so far.
\<close>

record app =
  SERVICES :: "(string \<times> string) list"
  logged :: "log_record list"

definition logger_info :: "string \<Rightarrow> app \<Rightarrow> app" where
  "logger_info msg g = g\<lparr>logged := logged g @ [(INFO, msg)]\<rparr>"

definition logger_error :: "string \<Rightarrow> app \<Rightarrow> app" where
  "logger_error msg g = g\<lparr>logged := logged g @ [(ERROR, msg)]\<rparr>"






text \<open>\<^verbatim>\<open>os.getenv(key, default)\<close> on the environment the process was started in.\<close>

definition getenv :: "(string \<rightharpoonup> string) \<Rightarrow> string \<Rightarrow> string \<Rightarrow> string" where
  "getenv env key dflt = (case env key of Some v \<Rightarrow> v | None \<Rightarrow> dflt)"

text \<open>The module body: the logger's first record and the \<^verbatim>\<open>SERVICES\<close> literal.\<close>

definition startup :: "(string \<rightharpoonup> string) \<Rightarrow> app" where
  "startup env =
     logger_info ''SafeScan Monitoring startup''
       \<lparr>SERVICES =
          [(''api'', getenv env ''API_URL'' ''http://safescan_apis:5000/api/health''),
           (''database'', getenv env ''DB_URL'' ''http://safescan_apis:5000/api/health''),
           (''redis'', getenv env ''REDIS_URL'' ''http://safescan_apis:5000/api/health'')],
        logged = []\<rparr>"

section \<open>\<^verbatim>\<open>/health\<close> and \<^verbatim>\<open>/ping\<close>\<close>

text \<open>
  \<open>utcnow k\<close> is what the \<open>k\<close>-th call of \<^verbatim>\<open>datetime.datetime.utcnow().isoformat()\<close>
  within one handler invocation returns.
\<close>

definition health :: "(nat \<Rightarrow> string) \<Rightarrow> app \<Rightarrow> response \<times> app" where
  "health utcnow g =
     ((JObj [(''status'', JStr ''healthy''),
             (''timestamp'', JStr (utcnow 0)),
             (''service'', JStr ''monitoring'')], 200), g)"

definition ping :: "app \<Rightarrow> response \<times> app" where
  "ping g = ((JObj [(''message'', JStr ''pong'')], 200), g)"

section \<open>\<^verbatim>\<open>/metrics\<close>\<close>

text \<open>
  What the \<^verbatim>\<open>psutil\<close> calls of one invocation give: a value, or the exception they raise.
  \<^verbatim>\<open>cpu_count\<close> may return \<^verbatim>\<open>None\<close>.
\<close>

record svmem =
  mem_total :: int
  mem_available :: int
  mem_percent :: real
  mem_used :: int

record sdiskusage =
  disk_total :: int
  disk_used :: int
  disk_free :: int
  disk_percent :: real

record psutil =
  cpu_percent :: "exception + real"
  virtual_memory :: "exception + svmem"
  disk_usage :: "exception + sdiskusage"
  cpu_count :: "exception + int option"

text \<open>
  The body of the \<^verbatim>\<open>try\<close>: the three samples in the order of the source, then the
  dictionary, whose construction calls \<^verbatim>\<open>psutil.cpu_count()\<close>. The first exception ends it.
\<close>

definition metrics_try :: "psutil \<Rightarrow> (nat \<Rightarrow> string) \<Rightarrow> exception + response" where
  "metrics_try os utcnow =
     (case cpu_percent os of Inl e \<Rightarrow> Inl e | Inr cpu \<Rightarrow>
     (case virtual_memory os of Inl e \<Rightarrow> Inl e | Inr memory \<Rightarrow>
     (case disk_usage os of Inl e \<Rightarrow> Inl e | Inr disk \<Rightarrow>
     (case cpu_count os of Inl e \<Rightarrow> Inl e | Inr cores \<Rightarrow>
        Inr (JObj
          [(''cpu'', JObj
              [(''percent'', JFloat cpu),
               (''count'', (case cores of None \<Rightarrow> JNull | Some n \<Rightarrow> JInt n))]),
           (''memory'', JObj
              [(''total'', JInt (mem_total memory)),
               (''available'', JInt (mem_available memory)),
               (''percent'', JFloat (mem_percent memory)),
               (''used'', JInt (mem_used memory))]),
           (''disk'', JObj
              [(''total'', JInt (disk_total disk)),
               (''used'', JInt (disk_used disk)),
               (''free'', JInt (disk_free disk)),
               (''percent'', JFloat (disk_percent disk))]),
           (''timestamp'', JStr (utcnow 0))], 200)))))"

definition system_metrics :: "psutil \<Rightarrow> (nat \<Rightarrow> string) \<Rightarrow> app \<Rightarrow> response \<times> app" where
  "system_metrics os utcnow g =
     (case metrics_try os utcnow of
        Inr r \<Rightarrow> (r, g)
      | Inl (Exception msg) \<Rightarrow>
          ((JObj [(''error'', JStr msg)], 500),
           logger_error (''Error getting system metrics: '' @ msg) g))"

section \<open>\<^verbatim>\<open>/services\<close>\<close>

text \<open>
  What \<^verbatim>\<open>requests.get(service_url, timeout=5)\<close> gives: a response, of which the handler
  reads the status code and the elapsed seconds; a \<^verbatim>\<open>RequestException\<close> (connection
  errors and timeouts among them) with its text \<^verbatim>\<open>str(e)\<close>, which may be empty; or an
  exception of another class (the library lets some pass, as the URL parser's error for a
  malformed host), which the \<^verbatim>\<open>except\<close> clause of the handler does not catch.
\<close>

datatype http_outcome = Response int real | RequestException string | OtherException string

text \<open>
  The \<^verbatim>\<open>try\<close> statement in the body of the loop: the entry stored for the endpoint, or
  the exception that passes the \<^verbatim>\<open>except\<close> clause.
\<close>

definition service_result :: "http_outcome \<Rightarrow> exception + json" where
  "service_result r =
     (case r of
        Response status_code elapsed \<Rightarrow>
          Inr (JObj [(''status'', JStr (if status_code = 200 then ''healthy'' else ''unhealthy'')),
                     (''status_code'', JInt status_code),
                     (''response_time'', JFloat elapsed)])
      | RequestException msg \<Rightarrow>
          Inr (JObj [(''status'', JStr ''unhealthy''),
                     (''error'', JStr msg),
                     (''response_time'', JNull)])
      | OtherException msg \<Rightarrow> Inl (Exception msg))"

text \<open>
  The loop over \<^verbatim>\<open>SERVICES.items()\<close>. \<open>requests_get k url\<close> is the outcome of the
  \<open>k\<close>-th request of the invocation (two endpoints may share a URL and still answer
  differently). \<^verbatim>\<open>results[service_name] = ...\<close> is the dictionary store: a new key is
  appended, a known key keeps its place. An exception that is not caught ends the loop.
\<close>

fun poll ::
  "(nat \<Rightarrow> string \<Rightarrow> http_outcome) \<Rightarrow> nat \<Rightarrow> (string \<times> string) list \<Rightarrow>
     (string \<times> json) list \<Rightarrow> exception + (string \<times> json) list" where
  "poll requests_get k [] results = Inr results"
| "poll requests_get k ((service_name, service_url) # rest) results =
     (case service_result (requests_get k service_url) of
        Inl e \<Rightarrow> Inl e
      | Inr entry \<Rightarrow>
          poll requests_get (Suc k) rest (AList.update service_name entry results))"

text \<open>
  The handler has no \<^verbatim>\<open>try\<close> around the loop: an exception that leaves the loop leaves
  the handler (\<open>Inl\<close>), and no answer is built.
\<close>

definition check_services ::
  "(nat \<Rightarrow> string \<Rightarrow> http_outcome) \<Rightarrow> (nat \<Rightarrow> string) \<Rightarrow> app \<Rightarrow>
     (exception + response) \<times> app" where
  "check_services requests_get utcnow g =
     (case poll requests_get 0 (SERVICES g) [] of
        Inl e \<Rightarrow> (Inl e, g)
      | Inr results \<Rightarrow>
          (let all_healthy =
                 list_all (\<lambda>s. subscript s ''status'' = Some (JStr ''healthy''))
                   (map snd results)
           in (Inr (JObj [(''overall_status'',
                             JStr (if all_healthy then ''healthy'' else ''degraded'')),
                          (''services'', JObj results),
                          (''timestamp'', JStr (utcnow 0))],
                    if all_healthy then 200 else 503), g)))"

section \<open>\<^verbatim>\<open>/logs\<close>\<close>

text \<open>
  The log file is opened in text mode, so \<^verbatim>\<open>\r\n\<close> and a lone \<^verbatim>\<open>\r\<close> are read as
  \<^verbatim>\<open>\n\<close>; \<^verbatim>\<open>readlines\<close> cuts the text after every \<^verbatim>\<open>\n\<close> and keeps it at the end of
  its line. A \<open>char\<close> stands for one character of the decoded text.
\<close>

fun translate_newlines :: "string \<Rightarrow> string" where
  "translate_newlines [] = []"
| "translate_newlines [c] = [if c = CHR 0x0D then CHR 0x0A else c]"
| "translate_newlines (c # d # cs) =
     (if c = CHR 0x0D then
        (if d = CHR 0x0A then CHR 0x0A # translate_newlines cs
         else CHR 0x0A # translate_newlines (d # cs))
      else c # translate_newlines (d # cs))"

fun split_lines :: "string \<Rightarrow> string \<Rightarrow> string list" where
  "split_lines cur [] = (if cur = [] then [] else [cur])"
| "split_lines cur (c # cs) =
     (if c = CHR 0x0A then (cur @ [c]) # split_lines [] cs
      else split_lines (cur @ [c]) cs)"

definition readlines :: "string \<Rightarrow> string list" where
  "readlines text = split_lines [] (translate_newlines text)"

text \<open>
  \<^verbatim>\<open>str.strip()\<close>: the whitespace characters of Python below code point 256 are
  9 to 13, 28 to 32, 133 and 160.
\<close>

definition isspace :: "char \<Rightarrow> bool" where
  "isspace c =
     (let n = (of_char c :: nat)
      in (9 \<le> n \<and> n \<le> 13) \<or> (28 \<le> n \<and> n \<le> 32) \<or> n = 133 \<or> n = 160)"

definition strip :: "string \<Rightarrow> string" where
  "strip s = rev (dropWhile isspace (rev (dropWhile isspace s)))"

text \<open>
  The slice \<^verbatim>\<open>xs[start:]\<close>: a negative start counts from the end, and a start outside the
  list is clipped to it.
\<close>

definition slice_from :: "int \<Rightarrow> 'a list \<Rightarrow> 'a list" where
  "slice_from start xs =
     (let n = int (length xs);
          s = (if start < 0 then max (start + n) 0 else min start n)
      in drop (nat s) xs)"

text \<open>
  \<open>arg\<close> is \<^verbatim>\<open>request.args.get('lines', type=int)\<close> before the default applies:
  \<open>None\<close> when the parameter is missing or is not an integer. \<open>path_exists\<close> is what
  \<^verbatim>\<open>os.path.exists(log_file)\<close> answers, and \<open>read_result\<close> what opening and reading the
  file gives: its text, or the exception raised.
\<close>

definition get_logs :: "int option \<Rightarrow> bool \<Rightarrow> exception + string \<Rightarrow> app \<Rightarrow> response \<times> app" where
  "get_logs arg path_exists read_result g =
     (let lines = (case arg of None \<Rightarrow> 100 | Some n \<Rightarrow> n)
      in if \<not> path_exists then ((JObj [(''logs'', JArr [])], 200), g)
         else
           (case read_result of
              Inl (Exception msg) \<Rightarrow>
                ((JObj [(''error'', JStr msg)], 500),
                 logger_error (''Error reading logs: '' @ msg) g)
            | Inr text \<Rightarrow>
                (let logs = readlines text;
                     recent_logs =
                       (if int (length logs) > lines then slice_from (- lines) logs else logs)
                 in ((JObj [(''logs'', JArr (map (\<lambda>log. JStr (strip log)) recent_logs)),
                            (''total_lines'', JInt (int (length logs))),
                            (''returned_lines'', JInt (int (length recent_logs)))], 200), g))))"

section \<open>\<^verbatim>\<open>/alerts\<close>\<close>

text \<open>
  \<open>fmt\<close> is the text an f-string puts for a float (\<^verbatim>\<open>{cpu_percent}\<close>). The list
  \<^verbatim>\<open>alerts\<close> grows by \<^verbatim>\<open>append\<close>; every alert reads the clock once, so the number of
  alerts so far is the number of clock readings so far.
\<close>

definition alerts_try :: "(real \<Rightarrow> string) \<Rightarrow> psutil \<Rightarrow> (nat \<Rightarrow> string) \<Rightarrow> exception + response" where
  "alerts_try fmt os utcnow =
     (case cpu_percent os of Inl e \<Rightarrow> Inl e | Inr cpu \<Rightarrow>
        (let alerts1 =
               (if cpu > 80
                then [JObj [(''level'', JStr ''warning''),
                            (''type'', JStr ''cpu''),
                            (''message'', JStr (''High CPU usage: '' @ fmt cpu @ ''%'')),
                            (''timestamp'', JStr (utcnow 0))]]
                else [])
         in (case virtual_memory os of Inl e \<Rightarrow> Inl e | Inr memory \<Rightarrow>
           (let alerts2 =
                  (if mem_percent memory > 85
                   then alerts1 @
                        [JObj [(''level'', JStr ''warning''),
                               (''type'', JStr ''memory''),
                               (''message'',
                                  JStr (''High memory usage: '' @ fmt (mem_percent memory) @ ''%'')),
                               (''timestamp'', JStr (utcnow (length alerts1)))]]
                   else alerts1)
            in (case disk_usage os of Inl e \<Rightarrow> Inl e | Inr disk \<Rightarrow>
              (let alerts3 =
                     (if disk_percent disk > 90
                      then alerts2 @
                           [JObj [(''level'', JStr ''critical''),
                                  (''type'', JStr ''disk''),
                                  (''message'',
                                     JStr (''Low disk space: '' @ fmt (disk_percent disk)
                                           @ ''% used'')),
                                  (''timestamp'', JStr (utcnow (length alerts2)))]]
                      else alerts2)
               in Inr (JObj [(''alerts'', JArr alerts3),
                             (''count'', JInt (int (length alerts3))),
                             (''timestamp'', JStr (utcnow (length alerts3)))], 200)))))))"

definition get_alerts ::
  "(real \<Rightarrow> string) \<Rightarrow> psutil \<Rightarrow> (nat \<Rightarrow> string) \<Rightarrow> app \<Rightarrow> response \<times> app" where
  "get_alerts fmt os utcnow g =
     (case alerts_try fmt os utcnow of
        Inr r \<Rightarrow> (r, g)
      | Inl (Exception msg) \<Rightarrow>
          ((JObj [(''error'', JStr msg)], 500),
           logger_error (''Error getting alerts: '' @ msg) g))"

section \<open>The process as a whole\<close>

text \<open>
  One request handled: the state before and after, for any route and any outside world.
  When an exception leaves \<^verbatim>\<open>check_services\<close>, Flask logs it through the application
  logger at level \<^verbatim>\<open>ERROR\<close> (with some text) and answers 500 itself.
\<close>

inductive handled :: "app \<Rightarrow> app \<Rightarrow> bool" where
  h_health: "handled g (snd (health utcnow g))"
| h_metrics: "handled g (snd (system_metrics os utcnow g))"
| h_services: "handled g (snd (check_services requests_get utcnow g))"
| h_uncaught: "fst (check_services requests_get utcnow g) = Inl e \<Longrightarrow>
     handled g (logger_error msg g)"
| h_logs: "handled g (snd (get_logs arg path_exists read_result g))"
| h_alerts: "handled g (snd (get_alerts fmt os utcnow g))"
| h_ping: "handled g (snd (ping g))"

section \<open>Sample worlds\<close>

text \<open>
  A host with a busy CPU, half of its memory in use and a disk exactly at the 90 percent
  mark; a host whose memory query raises; networks in which the first endpoint refuses
  the connection, in which it times out with an exception that carries no text, in which
  the second endpoint answers 500, in which every endpoint answers 200, and two in which
  the URL of a later endpoint does not parse, so that \<^verbatim>\<open>requests.get\<close> raises an exception
  that is no \<^verbatim>\<open>RequestException\<close>.
\<close>

definition sample_memory :: svmem where
  "sample_memory =
     \<lparr>mem_total = 8000000000, mem_available = 4000000000, mem_percent = 50,
      mem_used = 4000000000\<rparr>"

definition sample_disk :: sdiskusage where
  "sample_disk =
     \<lparr>disk_total = 100000000000, disk_used = 90000000000, disk_free = 10000000000,
      disk_percent = 90\<rparr>"

definition sample_host :: psutil where
  "sample_host =
     \<lparr>cpu_percent = Inr (191 / 2), virtual_memory = Inr sample_memory,
      disk_usage = Inr sample_disk, cpu_count = Inr (Some 4)\<rparr>"

definition failing_host :: psutil where
  "failing_host =
     \<lparr>cpu_percent = Inr (191 / 2), virtual_memory = Inl (Exception ''Permission denied''),
      disk_usage = Inr sample_disk, cpu_count = Inr (Some 4)\<rparr>"

definition api_refused :: "nat \<Rightarrow> string \<Rightarrow> http_outcome" where
  "api_refused k url =
     (if k = 0 then RequestException ''Connection refused'' else Response 200 (1 / 10))"


definition api_timeout :: "nat \<Rightarrow> string \<Rightarrow> http_outcome" where
  "api_timeout k url = (if k = 0 then RequestException [] else Response 200 (1 / 10))"

definition redis_unparsable :: "nat \<Rightarrow> string \<Rightarrow> http_outcome" where
  "redis_unparsable k url =
     (if k = 1 then Response 500 (1 / 10)
      else if k = 2 then OtherException ''Failed to parse: label empty or too long''
      else Response 200 (1 / 10))"

definition database_unparsable :: "nat \<Rightarrow> string \<Rightarrow> http_outcome" where
  "database_unparsable k url =
     (if k = 0 then RequestException ''Connection refused''
      else if k = 1 then OtherException ''Failed to parse: label empty or too long''
      else Response 200 (1 / 10))"


definition sample_clock :: "nat \<Rightarrow> string" where
  "sample_clock k = ''2024-01-01T00:00:00''"

section \<open>The log tail\<close>

lemma slice_from_neg_len:
  "0 < n \<Longrightarrow> n < int (length xs) \<Longrightarrow> slice_from (- n) xs = drop (length xs - nat n) xs"
  by (simp add: slice_from_def Let_def nat_diff_distrib' max_def)

lemma slice_from_nonneg: "0 \<le> s \<Longrightarrow> slice_from s xs = drop (nat s) xs"
  by (simp add: slice_from_def Let_def min_def)

text \<open>
  For \<open>lines \<ge> 1\<close> the handler returns the last \<open>min lines total\<close> lines, trimmed,
  with both counts.
\<close>

lemma logs_tail:
  assumes "1 \<le> n"
  shows "get_logs (Some n) True (Inr text) g =
    ((JObj [(''logs'', JArr (map (\<lambda>log. JStr (strip log))
               (drop (length (readlines text) - nat (min n (int (length (readlines text)))))
                  (readlines text)))),
            (''total_lines'', JInt (int (length (readlines text)))),
            (''returned_lines'', JInt (min n (int (length (readlines text)))))], 200), g)"
  using assms by (simp add: get_logs_def Let_def slice_from_neg_len min_def)

theorem logs_tail_witness:
  "get_logs (Some 2) True (Inr ''a\<newline> b \<newline>c'') (startup Map.empty) =
    ((JObj [(''logs'', JArr [JStr ''b'', JStr ''c'']),
            (''total_lines'', JInt 3),
            (''returned_lines'', JInt 2)], 200), startup Map.empty)"
  using logs_tail [of 2 "''a\<newline> b \<newline>c''" "startup Map.empty"]
  by (simp add: readlines_def strip_def isspace_def)

text \<open>With \<open>lines = 0\<close> the slice \<^verbatim>\<open>logs[-0:]\<close> is the whole list.\<close>

lemma logs_zero:
  "get_logs (Some 0) True (Inr text) g =
    ((JObj [(''logs'', JArr (map (\<lambda>log. JStr (strip log)) (readlines text))),
            (''total_lines'', JInt (int (length (readlines text)))),
            (''returned_lines'', JInt (int (length (readlines text))))], 200), g)"
  by (simp add: get_logs_def Let_def slice_from_def)

text \<open>
  C1. For \<open>lines = n \<ge> 0\<close> the handler is to return \<open>min n total_lines\<close> entries, the
  last lines of the file, trimmed. At \<open>n = 0\<close> on a file of one line the handler returns
  that line, and \<open>returned_lines\<close> is 1, where the minimum is 0.
\<close>

theorem logs_zero_returns_all:
  "get_logs (Some 0) True (Inr ''a\<newline>'') g =
    ((JObj [(''logs'', JArr [JStr ''a'']),
            (''total_lines'', JInt 1),
            (''returned_lines'', JInt 1)], 200), g)"
  by (simp add: get_logs_def Let_def slice_from_def readlines_def strip_def isspace_def)

theorem logs_zero_returns_all_witness:
  "get_logs (Some 0) True (Inr ''a\<newline>'') (startup Map.empty) =
    ((JObj [(''logs'', JArr [JStr ''a'']),
            (''total_lines'', JInt 1),
            (''returned_lines'', JInt 1)], 200), startup Map.empty)"
  using logs_zero_returns_all [of "startup Map.empty"] by simp

text \<open>
  C5. When the log file does not exist, the handler answers \<^verbatim>\<open>{logs: []}\<close> with status
  200 whatever the \<open>lines\<close> parameter is (given, missing or malformed) and whatever
  reading the file would have given; nothing is logged, the state is as before.
\<close>

theorem logs_absent:
  "get_logs arg False read_result g = ((JObj [(''logs'', JArr [])], 200), g)"
  by (simp add: get_logs_def)

theorem logs_absent_witness:
  "get_logs (Some 50) False (Inl (Exception ''No such file or directory'')) (startup Map.empty)
     = ((JObj [(''logs'', JArr [])], 200), startup Map.empty)"
  using logs_absent [of "Some 50" "Inl (Exception ''No such file or directory'')"
      "startup Map.empty"]
  by simp

text \<open>
  C9. For a negative \<open>lines = n\<close> the handler does not fail and does not clamp to zero:
  it answers 200 with all but the first \<open>\<bar>n\<bar>\<close> lines of the file, trimmed, and
  \<open>returned_lines = max (total_lines - \<bar>n\<bar>) 0\<close>.
\<close>

theorem logs_negative:
  assumes "n < 0"
  shows "get_logs (Some n) True (Inr text) g =
    ((JObj [(''logs'', JArr (map (\<lambda>log. JStr (strip log))
                               (drop (nat \<bar>n\<bar>) (readlines text)))),
            (''total_lines'', JInt (int (length (readlines text)))),
            (''returned_lines'', JInt (max (int (length (readlines text)) - \<bar>n\<bar>) 0))],
      200), g)"
  using assms by (simp add: get_logs_def Let_def slice_from_nonneg max_def)

theorem logs_negative_witness:
  "get_logs (Some (- 1)) True (Inr ''a\<newline> b \<newline>c'') (startup Map.empty) =
    ((JObj [(''logs'', JArr [JStr ''b'', JStr ''c'']),
            (''total_lines'', JInt 3),
            (''returned_lines'', JInt 2)], 200), startup Map.empty)"
  using logs_negative [of "- 1" "''a\<newline> b \<newline>c''" "startup Map.empty"]
  by (simp add: readlines_def strip_def isspace_def)

section \<open>The service poll\<close>


lemma service_result_Inl:
  "service_result r = Inl e \<longleftrightarrow> (\<exists>m. r = OtherException m \<and> e = Exception m)"
  by (cases r) (auto simp: service_result_def)












lemma startup_SERVICES:
  "SERVICES (startup env) =
     [(''api'', getenv env ''API_URL'' ''http://safescan_apis:5000/api/health''),
      (''database'', getenv env ''DB_URL'' ''http://safescan_apis:5000/api/health''),
      (''redis'', getenv env ''REDIS_URL'' ''http://safescan_apis:5000/api/health'')]"
  by (simp add: startup_def logger_info_def)


text \<open>
  C2. The handler is to answer \<^verbatim>\<open>"degraded"\<close> with status 503 as soon as the check of
  one endpoint returns a status other than 200 or raises a request error. With the second
  endpoint answering 500 and the request to the third raising an exception that is not a
  \<^verbatim>\<open>RequestException\<close>, the handler builds no answer: the exception leaves it.
\<close>

theorem services_uncaught_exception:
  "redis_unparsable 1 (snd (SERVICES (startup Map.empty) ! 1)) = Response 500 (1 / 10)
   \<and> (500 :: int) \<noteq> 200
   \<and> check_services redis_unparsable sample_clock (startup Map.empty)
       = (Inl (Exception ''Failed to parse: label empty or too long''), startup Map.empty)"
  by (simp add: check_services_def startup_SERVICES redis_unparsable_def service_result_def)



text \<open>
  C3. A network or timeout error is to yield an entry with a non-empty error message,
  and every endpoint is to be classified. A timeout whose exception carries no text gives
  the entry the empty string as its \<^verbatim>\<open>error\<close>; and when the first endpoint refuses the
  connection while the request to the second raises an exception that is not a
  \<^verbatim>\<open>RequestException\<close>, no endpoint gets an entry, since no answer is built.
\<close>

theorem services_empty_error:
  "check_services api_timeout sample_clock (startup Map.empty) =
     (Inr (JObj
        [(''overall_status'', JStr ''degraded''),
         (''services'', JObj
            [(''api'', JObj [(''status'', JStr ''unhealthy''), (''error'', JStr []),
                            (''response_time'', JNull)]),
             (''database'', JObj [(''status'', JStr ''healthy''), (''status_code'', JInt 200),
                                 (''response_time'', JFloat (1 / 10))]),
             (''redis'', JObj [(''status'', JStr ''healthy''), (''status_code'', JInt 200),
                              (''response_time'', JFloat (1 / 10))])]),
         (''timestamp'', JStr ''2024-01-01T00:00:00'')], 503), startup Map.empty)
   \<and> database_unparsable 0 (snd (SERVICES (startup Map.empty) ! 0))
       = RequestException ''Connection refused''
   \<and> check_services database_unparsable sample_clock (startup Map.empty)
       = (Inl (Exception ''Failed to parse: label empty or too long''), startup Map.empty)"
  by (simp add: check_services_def startup_SERVICES api_timeout_def database_unparsable_def
      service_result_def sample_clock_def)



section \<open>Alerts and metrics\<close>

lemma alerts_try_ok:
  assumes "cpu_percent os = Inr cpu" "virtual_memory os = Inr memory" "disk_usage os = Inr disk"
  shows "alerts_try fmt os utcnow =
    (let alerts1 =
           (if cpu > 80
            then [JObj [(''level'', JStr ''warning''),
                        (''type'', JStr ''cpu''),
                        (''message'', JStr (''High CPU usage: '' @ fmt cpu @ ''%'')),
                        (''timestamp'', JStr (utcnow 0))]]
            else []);
         alerts2 = alerts1 @
           (if mem_percent memory > 85
            then [JObj [(''level'', JStr ''warning''),
                        (''type'', JStr ''memory''),
                        (''message'',
                           JStr (''High memory usage: '' @ fmt (mem_percent memory) @ ''%'')),
                        (''timestamp'', JStr (utcnow (length alerts1)))]]
            else []);
         alerts3 = alerts2 @
           (if disk_percent disk > 90
            then [JObj [(''level'', JStr ''critical''),
                        (''type'', JStr ''disk''),
                        (''message'',
                           JStr (''Low disk space: '' @ fmt (disk_percent disk) @ ''% used'')),
                        (''timestamp'', JStr (utcnow (length alerts2)))]]
            else [])
     in Inr (JObj [(''alerts'', JArr alerts3),
                   (''count'', JInt (int (length alerts3))),
                   (''timestamp'', JStr (utcnow (length alerts3)))], 200))"
  by (simp add: alerts_try_def assms Let_def)

lemma get_alerts_failed:
  "alerts_try fmt os utcnow = Inl e \<Longrightarrow> snd (fst (get_alerts fmt os utcnow g)) = 500"
  by (cases e) (simp add: get_alerts_def)

text \<open>
  C4. When the three queries succeed, the answer is \<^verbatim>\<open>{alerts, count, timestamp}\<close> with
  status 200 and the state untouched, however many thresholds are passed. Its alerts of
  type \<^verbatim>\<open>cpu\<close> are exactly one, of level \<^verbatim>\<open>warning\<close> and with the measured value in its
  message, if the CPU sample is above 80, and none otherwise; likewise \<^verbatim>\<open>memory\<close> above 85
  (\<^verbatim>\<open>warning\<close>) and \<^verbatim>\<open>disk\<close> above 90 (\<^verbatim>\<open>critical\<close>); and the list holds nothing else.
\<close>

theorem alerts_thresholds:
  assumes "cpu_percent os = Inr cpu" "virtual_memory os = Inr memory" "disk_usage os = Inr disk"
  shows "\<exists>alerts ts.
      get_alerts fmt os utcnow g =
        ((JObj [(''alerts'', JArr alerts), (''count'', JInt (int (length alerts))),
                (''timestamp'', JStr ts)], 200), g)
    \<and> (\<exists>t. filter (\<lambda>a. subscript a ''type'' = Some (JStr ''cpu'')) alerts =
          (if cpu > 80
           then [JObj [(''level'', JStr ''warning''),
                       (''type'', JStr ''cpu''),
                       (''message'', JStr (''High CPU usage: '' @ fmt cpu @ ''%'')),
                       (''timestamp'', JStr t)]]
           else []))
    \<and> (\<exists>t. filter (\<lambda>a. subscript a ''type'' = Some (JStr ''memory'')) alerts =
          (if mem_percent memory > 85
           then [JObj [(''level'', JStr ''warning''),
                       (''type'', JStr ''memory''),
                       (''message'',
                          JStr (''High memory usage: '' @ fmt (mem_percent memory) @ ''%'')),
                       (''timestamp'', JStr t)]]
           else []))
    \<and> (\<exists>t. filter (\<lambda>a. subscript a ''type'' = Some (JStr ''disk'')) alerts =
          (if disk_percent disk > 90
           then [JObj [(''level'', JStr ''critical''),
                       (''type'', JStr ''disk''),
                       (''message'',
                          JStr (''Low disk space: '' @ fmt (disk_percent disk) @ ''% used'')),
                       (''timestamp'', JStr t)]]
           else []))
    \<and> alerts =
        filter (\<lambda>a. subscript a ''type'' = Some (JStr ''cpu'')) alerts
        @ filter (\<lambda>a. subscript a ''type'' = Some (JStr ''memory'')) alerts
        @ filter (\<lambda>a. subscript a ''type'' = Some (JStr ''disk'')) alerts"
proof -
  define c where "c =
    (if cpu > 80
     then [JObj [(''level'', JStr ''warning''),
                 (''type'', JStr ''cpu''),
                 (''message'', JStr (''High CPU usage: '' @ fmt cpu @ ''%'')),
                 (''timestamp'', JStr (utcnow 0))]]
     else [])"
  define m where "m =
    (if mem_percent memory > 85
     then [JObj [(''level'', JStr ''warning''),
                 (''type'', JStr ''memory''),
                 (''message'', JStr (''High memory usage: '' @ fmt (mem_percent memory) @ ''%'')),
                 (''timestamp'', JStr (utcnow (length c)))]]
     else [])"
  define d where "d =
    (if disk_percent disk > 90
     then [JObj [(''level'', JStr ''critical''),
                 (''type'', JStr ''disk''),
                 (''message'', JStr (''Low disk space: '' @ fmt (disk_percent disk) @ ''% used'')),
                 (''timestamp'', JStr (utcnow (length (c @ m))))]]
     else [])"
  have answer: "get_alerts fmt os utcnow g =
      ((JObj [(''alerts'', JArr (c @ m @ d)), (''count'', JInt (int (length (c @ m @ d)))),
              (''timestamp'', JStr (utcnow (length (c @ m @ d))))], 200), g)"
    by (simp add: get_alerts_def alerts_try_ok [OF assms] Let_def c_def m_def d_def)
  have fc: "filter (\<lambda>a. subscript a ''type'' = Some (JStr ''cpu'')) (c @ m @ d) = c"
    by (simp add: c_def m_def d_def)
  have fm: "filter (\<lambda>a. subscript a ''type'' = Some (JStr ''memory'')) (c @ m @ d) = m"
    by (simp add: c_def m_def d_def)
  have fd: "filter (\<lambda>a. subscript a ''type'' = Some (JStr ''disk'')) (c @ m @ d) = d"
    by (simp add: c_def m_def d_def)
  show ?thesis
  proof (rule exI [of _ "c @ m @ d"], rule exI [of _ "utcnow (length (c @ m @ d))"],
      intro conjI)
    show "get_alerts fmt os utcnow g =
      ((JObj [(''alerts'', JArr (c @ m @ d)), (''count'', JInt (int (length (c @ m @ d)))),
              (''timestamp'', JStr (utcnow (length (c @ m @ d))))], 200), g)"
      by (rule answer)
    show "\<exists>t. filter (\<lambda>a. subscript a ''type'' = Some (JStr ''cpu'')) (c @ m @ d) =
          (if cpu > 80
           then [JObj [(''level'', JStr ''warning''),
                       (''type'', JStr ''cpu''),
                       (''message'', JStr (''High CPU usage: '' @ fmt cpu @ ''%'')),
                       (''timestamp'', JStr t)]]
           else [])"
      unfolding fc by (rule exI [of _ "utcnow 0"]) (simp add: c_def)
    show "\<exists>t. filter (\<lambda>a. subscript a ''type'' = Some (JStr ''memory'')) (c @ m @ d) =
          (if mem_percent memory > 85
           then [JObj [(''level'', JStr ''warning''),
                       (''type'', JStr ''memory''),
                       (''message'',
                          JStr (''High memory usage: '' @ fmt (mem_percent memory) @ ''%'')),
                       (''timestamp'', JStr t)]]
           else [])"
      unfolding fm by (rule exI [of _ "utcnow (length c)"]) (simp add: m_def)
    show "\<exists>t. filter (\<lambda>a. subscript a ''type'' = Some (JStr ''disk'')) (c @ m @ d) =
          (if disk_percent disk > 90
           then [JObj [(''level'', JStr ''critical''),
                       (''type'', JStr ''disk''),
                       (''message'',
                          JStr (''Low disk space: '' @ fmt (disk_percent disk) @ ''% used'')),
                       (''timestamp'', JStr t)]]
           else [])"
      unfolding fd by (rule exI [of _ "utcnow (length (c @ m))"]) (simp add: d_def)
    show "c @ m @ d =
        filter (\<lambda>a. subscript a ''type'' = Some (JStr ''cpu'')) (c @ m @ d)
        @ filter (\<lambda>a. subscript a ''type'' = Some (JStr ''memory'')) (c @ m @ d)
        @ filter (\<lambda>a. subscript a ''type'' = Some (JStr ''disk'')) (c @ m @ d)"
      unfolding fc fm fd by (rule refl)
  qed
qed

theorem alerts_thresholds_witness:
  "\<exists>alerts ts.
      get_alerts (\<lambda>x. ''95.5'') sample_host sample_clock (startup Map.empty) =
        ((JObj [(''alerts'', JArr alerts), (''count'', JInt (int (length alerts))),
                (''timestamp'', JStr ts)], 200), startup Map.empty)
    \<and> (\<exists>t. filter (\<lambda>a. subscript a ''type'' = Some (JStr ''cpu'')) alerts =
          [JObj [(''level'', JStr ''warning''),
                 (''type'', JStr ''cpu''),
                 (''message'', JStr ''High CPU usage: 95.5%''),
                 (''timestamp'', JStr t)]])
    \<and> filter (\<lambda>a. subscript a ''type'' = Some (JStr ''memory'')) alerts = []
    \<and> filter (\<lambda>a. subscript a ''type'' = Some (JStr ''disk'')) alerts = []"
proof -
  have q: "cpu_percent sample_host = Inr (191 / 2)"
    "virtual_memory sample_host = Inr sample_memory"
    "disk_usage sample_host = Inr sample_disk"
    by (simp_all add: sample_host_def)
  have v: "(191 / 2 :: real) > 80" "\<not> mem_percent sample_memory > 85"
    "\<not> disk_percent sample_disk > 90"
    by (simp_all add: sample_memory_def sample_disk_def)
  from alerts_thresholds [OF q, of "\<lambda>x. ''95.5''" sample_clock "startup Map.empty"]
  obtain alerts ts where
    "get_alerts (\<lambda>x. ''95.5'') sample_host sample_clock (startup Map.empty) =
        ((JObj [(''alerts'', JArr alerts), (''count'', JInt (int (length alerts))),
                (''timestamp'', JStr ts)], 200), startup Map.empty)"
    "\<exists>t. filter (\<lambda>a. subscript a ''type'' = Some (JStr ''cpu'')) alerts =
          [JObj [(''level'', JStr ''warning''),
                 (''type'', JStr ''cpu''),
                 (''message'', JStr (''High CPU usage: '' @ ''95.5'' @ ''%'')),
                 (''timestamp'', JStr t)]]"
    "filter (\<lambda>a. subscript a ''type'' = Some (JStr ''memory'')) alerts = []"
    "filter (\<lambda>a. subscript a ''type'' = Some (JStr ''disk'')) alerts = []"
    by (simp only: v if_True if_False simp_thms) blast
  then show ?thesis
    by (intro exI [of _ alerts] exI [of _ ts]) simp
qed

text \<open>
  C10. In every answer of status 200 the alerts are at most one of each type and in the
  order \<^verbatim>\<open>cpu\<close>, \<^verbatim>\<open>memory\<close>, \<^verbatim>\<open>disk\<close> (their types are a subsequence of that list),
  and \<^verbatim>\<open>count\<close> is the length of the list, between 0 and 3.
\<close>

theorem alerts_shape:
  assumes "get_alerts fmt os utcnow g = ((body, 200), g')"
  shows "\<exists>alerts.
      subscript body ''alerts'' = Some (JArr alerts)
    \<and> subscript body ''count'' = Some (JInt (int (length alerts)))
    \<and> subseq (map (\<lambda>a. subscript a ''type'') alerts)
         [Some (JStr ''cpu''), Some (JStr ''memory''), Some (JStr ''disk'')]
    \<and> 0 \<le> int (length alerts) \<and> int (length alerts) \<le> 3"
proof -
  have ok: "\<exists>r. alerts_try fmt os utcnow = Inr r"
  proof (cases "alerts_try fmt os utcnow")
    case (Inl e)
    from get_alerts_failed [OF Inl, of g] assms show ?thesis by simp
  next
    case (Inr r)
    then show ?thesis by blast
  qed
  then obtain cpu memory disk where q:
    "cpu_percent os = Inr cpu" "virtual_memory os = Inr memory" "disk_usage os = Inr disk"
    by (auto simp: alerts_try_def Let_def split: sum.splits)
  from assms show ?thesis
    unfolding get_alerts_def alerts_try_ok [OF q] Let_def
    by (cases "cpu > 80"; cases "mem_percent memory > 85"; cases "disk_percent disk > 90")
      auto
qed

theorem alerts_shape_witness:
  "\<exists>alerts.
      subscript (fst (fst (get_alerts (\<lambda>x. ''95.5'') sample_host sample_clock (startup Map.empty))))
        ''alerts'' = Some (JArr alerts)
    \<and> subscript (fst (fst (get_alerts (\<lambda>x. ''95.5'') sample_host sample_clock (startup Map.empty))))
        ''count'' = Some (JInt (int (length alerts)))
    \<and> subseq (map (\<lambda>a. subscript a ''type'') alerts)
         [Some (JStr ''cpu''), Some (JStr ''memory''), Some (JStr ''disk'')]
    \<and> 0 \<le> int (length alerts) \<and> int (length alerts) \<le> 3"
proof -
  have e: "get_alerts (\<lambda>x. ''95.5'') sample_host sample_clock (startup Map.empty) =
    ((JObj [(''alerts'', JArr [JObj [(''level'', JStr ''warning''),
                                     (''type'', JStr ''cpu''),
                                     (''message'', JStr ''High CPU usage: 95.5%''),
                                     (''timestamp'', JStr ''2024-01-01T00:00:00'')]]),
            (''count'', JInt 1),
            (''timestamp'', JStr ''2024-01-01T00:00:00'')], 200), startup Map.empty)"
    by (simp add: get_alerts_def alerts_try_def sample_host_def sample_memory_def
        sample_disk_def sample_clock_def)
  from alerts_shape [OF e] show ?thesis
    by (simp only: e fst_conv)
qed

text \<open>
  C7. Whatever the operating-system queries give, \<^verbatim>\<open>/metrics\<close> either answers with status
  200 and the payload of CPU percent and count, memory total, available, percent and used,
  disk total, used, free and percent, and the timestamp, all four queries having
  succeeded; or one of the queries raised, and the answer is \<^verbatim>\<open>{error: <message>}\<close> with
  status 500 and that message logged at level \<^verbatim>\<open>ERROR\<close>. The same holds for
  \<^verbatim>\<open>/alerts\<close> and its three queries.
\<close>

theorem os_failures:
  "((\<exists>cpu memory disk cores.
        cpu_percent os = Inr cpu \<and> virtual_memory os = Inr memory
      \<and> disk_usage os = Inr disk \<and> cpu_count os = Inr cores
      \<and> system_metrics os utcnow g =
          ((JObj
              [(''cpu'', JObj
                  [(''percent'', JFloat cpu),
                   (''count'', (case cores of None \<Rightarrow> JNull | Some n \<Rightarrow> JInt n))]),
               (''memory'', JObj
                  [(''total'', JInt (mem_total memory)),
                   (''available'', JInt (mem_available memory)),
                   (''percent'', JFloat (mem_percent memory)),
                   (''used'', JInt (mem_used memory))]),
               (''disk'', JObj
                  [(''total'', JInt (disk_total disk)),
                   (''used'', JInt (disk_used disk)),
                   (''free'', JInt (disk_free disk)),
                   (''percent'', JFloat (disk_percent disk))]),
               (''timestamp'', JStr (utcnow 0))], 200), g))
    \<or> (\<exists>msg.
          (cpu_percent os = Inl (Exception msg) \<or> virtual_memory os = Inl (Exception msg)
           \<or> disk_usage os = Inl (Exception msg) \<or> cpu_count os = Inl (Exception msg))
        \<and> system_metrics os utcnow g =
            ((JObj [(''error'', JStr msg)], 500),
             g\<lparr>logged := logged g @ [(ERROR, ''Error getting system metrics: '' @ msg)]\<rparr>)))
 \<and> ((\<exists>cpu memory disk alerts ts.
        cpu_percent os = Inr cpu \<and> virtual_memory os = Inr memory \<and> disk_usage os = Inr disk
      \<and> get_alerts fmt os utcnow g =
          ((JObj [(''alerts'', JArr alerts), (''count'', JInt (int (length alerts))),
                  (''timestamp'', JStr ts)], 200), g))
    \<or> (\<exists>msg.
          (cpu_percent os = Inl (Exception msg) \<or> virtual_memory os = Inl (Exception msg)
           \<or> disk_usage os = Inl (Exception msg))
        \<and> get_alerts fmt os utcnow g =
            ((JObj [(''error'', JStr msg)], 500),
             g\<lparr>logged := logged g @ [(ERROR, ''Error getting alerts: '' @ msg)]\<rparr>)))"
  (is "?metrics \<and> ?alerts")
proof (rule conjI)
  show ?metrics
    by (cases "cpu_percent os"; cases "virtual_memory os"; cases "disk_usage os";
        cases "cpu_count os")
       (auto simp: system_metrics_def metrics_try_def logger_error_def split: exception.splits)
next
  show ?alerts
    by (cases "cpu_percent os"; cases "virtual_memory os"; cases "disk_usage os")
       (auto simp: get_alerts_def alerts_try_def logger_error_def Let_def split: exception.splits)
qed

theorem os_failures_witness:
  "system_metrics failing_host sample_clock (startup Map.empty) =
     ((JObj [(''error'', JStr ''Permission denied'')], 500),
      (startup Map.empty)
        \<lparr>logged := logged (startup Map.empty) @
           [(ERROR, ''Error getting system metrics: Permission denied'')]\<rparr>)
   \<and> get_alerts (\<lambda>x. ''95.5'') failing_host sample_clock (startup Map.empty) =
     ((JObj [(''error'', JStr ''Permission denied'')], 500),
      (startup Map.empty)
        \<lparr>logged := logged (startup Map.empty) @
           [(ERROR, ''Error getting alerts: Permission denied'')]\<rparr>)"
  using os_failures [of failing_host sample_clock "startup Map.empty" "\<lambda>x. ''95.5''"]
  by (auto simp: failing_host_def)

section \<open>Configuration\<close>







lemma handled_SERVICES: "handled g g' \<Longrightarrow> SERVICES g' = SERVICES g"
  by (induction rule: handled.induct)
    (auto simp: health_def system_metrics_def check_services_def get_logs_def get_alerts_def
      ping_def logger_error_def Let_def split: sum.splits exception.splits)

lemma reachable_SERVICES:
  "rtranclp handled g g' \<Longrightarrow> SERVICES g' = SERVICES g"
  by (induction rule: rtranclp_induct) (auto dest: handled_SERVICES)

text \<open>
  C8. In every state the process reaches from its start by handling requests, the
  service table has exactly the three names \<^verbatim>\<open>api\<close>, \<^verbatim>\<open>database\<close> and \<^verbatim>\<open>redis\<close>, each
  with the URL of its environment variable (\<^verbatim>\<open>API_URL\<close>, \<^verbatim>\<open>DB_URL\<close>, \<^verbatim>\<open>REDIS_URL\<close>) or,
  where the variable is unset, with the one placeholder URL.
\<close>

theorem services_fixed:
  assumes "rtranclp handled (startup env) g"
  shows "SERVICES g =
     [(''api'', case env ''API_URL'' of Some u \<Rightarrow> u
                | None \<Rightarrow> ''http://safescan_apis:5000/api/health''),
      (''database'', case env ''DB_URL'' of Some u \<Rightarrow> u
                | None \<Rightarrow> ''http://safescan_apis:5000/api/health''),
      (''redis'', case env ''REDIS_URL'' of Some u \<Rightarrow> u
                | None \<Rightarrow> ''http://safescan_apis:5000/api/health'')]"
  using reachable_SERVICES [OF assms] by (simp add: startup_SERVICES getenv_def)

theorem services_fixed_witness:
  "SERVICES (snd (get_logs None True (Inl (Exception ''Permission denied''))
               (snd (check_services api_refused sample_clock
                  (startup [''DB_URL'' \<mapsto> ''http://db:5432/health''])))))
   = [(''api'', ''http://safescan_apis:5000/api/health''),
      (''database'', ''http://db:5432/health''),
      (''redis'', ''http://safescan_apis:5000/api/health'')]"
proof -
  let ?g0 = "startup [''DB_URL'' \<mapsto> ''http://db:5432/health'']"
  let ?g1 = "snd (check_services api_refused sample_clock ?g0)"
  let ?g2 = "snd (get_logs None True (Inl (Exception ''Permission denied'')) ?g1)"
  have "handled ?g0 ?g1" by (rule h_services)
  moreover have "handled ?g1 ?g2" by (rule h_logs)
  ultimately have "rtranclp handled ?g0 ?g2" by simp
  from services_fixed [OF this] show ?thesis by simp
qed

end
